theory Spec2Isabelle
  imports Complex_Main "HOL-Library.Multiset"
begin

section \<open>JavaScript values used by the audit engine\<close>

text \<open>
  The engine of \<^verbatim>\<open>scripts/daily-audit.mjs\<close> computes with JavaScript numbers. They are
  modelled as exact rationals plus the value \<open>NaN\<close>: every constant of the script
  (5.0, 3.0, 1.5, 0.5, 0.25, ...) is a rational, and the rounding error of IEEE doubles is
  not part of the model. Infinities never arise, since every division of the modelled
  functions is guarded by the script itself.
\<close>

datatype jsnum = Num rat | NaN

definition Math_round :: "rat \<Rightarrow> rat" where
  \<comment> \<open>\<^verbatim>\<open>Math.round\<close>: the nearest integer, a tie going up.\<close>
  "Math_round x = of_int \<lfloor>x + 1 / 2\<rfloor>"

text \<open>
  The lookup tables of the script are object literals read as \<^verbatim>\<open>TABLE[key]\<close>. Such a read
  finds the table's own entries, and for a handful of keys a function or object inherited
  from \<^verbatim>\<open>Object.prototype\<close>; for every other key it is \<^verbatim>\<open>undefined\<close>.
\<close>

definition object_prototype_names :: "string list" where
  "object_prototype_names =
     [''constructor'', ''__defineGetter__'', ''__defineSetter__'', ''hasOwnProperty'',
      ''__lookupGetter__'', ''__lookupSetter__'', ''isPrototypeOf'', ''propertyIsEnumerable'',
      ''toString'', ''valueOf'', ''__proto__'', ''toLocaleString'']"

datatype 'a lookup = Own 'a | Inherited | Absent

definition js_get :: "(string \<times> 'a) list \<Rightarrow> string \<Rightarrow> 'a lookup" where
  "js_get tbl k =
     (case map_of tbl k of
        Some v \<Rightarrow> Own v
      | None \<Rightarrow> if k \<in> set object_prototype_names then Inherited else Absent)"








section \<open>Data model\<close>

text \<open>
  A check as the scorer, the quick-win selector and the recommendation synthesizer read
  it. The category evaluators are modelled without the templated \<^verbatim>\<open>finding\<close> text, so
  the record is split: \<open>check_core\<close> has the fields every consumer reads, \<open>check\<close>
  adds the finding.
\<close>

record check_core =
  id' :: string
  name :: string
  severity :: string
  result :: string

record check = check_core +
  finding :: string

record 'c category =
  cname :: string
  weight :: string
  checks :: "'c list"

record 'c scored_category = "'c category" +
  score :: "jsnum option"
  grade :: string

section \<open>Scoring\<close>













section \<open>The scoring rules as the specification words them\<close>















section \<open>The overall score as the specification words it\<close>




fun score_value :: "jsnum option \<Rightarrow> rat" where
  "score_value (Some (Num s)) = s"
| "score_value v = 0"

definition included :: "('c, 'b) scored_category_scheme list \<Rightarrow> ('c, 'b) scored_category_scheme list" where
  \<comment> \<open>the categories whose score is not null\<close>
  "included cats = filter (\<lambda>c. score c \<noteq> None) cats"





section \<open>Quick wins\<close>

text \<open>
  The two tables of \<^verbatim>\<open>getQuickWinAction\<close> and \<^verbatim>\<open>getEstimatedTime\<close>. A read
  \<^verbatim>\<open>table[id] || fallback\<close> gives the table's text, the fallback for an id outside the
  table, and an object inherited from \<^verbatim>\<open>Object.prototype\<close> for the few ids that name one.
\<close>

datatype jstext = Str string | InheritedObject

fun str_or :: "string lookup \<Rightarrow> string \<Rightarrow> jstext" where
  "str_or (Own v) d = Str (if v = [] then d else v)"
| "str_or Inherited d = InheritedObject"
| "str_or Absent d = Str d"

definition actions :: "(string \<times> string) list" where
  "actions =
     [(''G42'',
       ''Set up conversion tracking immediately: Go to Goals > Conversions > New conversion action. Track purchases (e-commerce), form submissions (lead gen), and phone calls. Without this, every dollar spent is unguided.''),
      (''G43'',
       ''Enable Enhanced Conversions: Go to Goals > Conversions > Settings > Enhanced conversions. This recovers 5-15% of conversions lost to cookie restrictions by using hashed first-party data (email/phone) for attribution.''),
      (''G44'',
       ''Implement server-side tracking via server-side GTM or Google Ads API offline conversion import to close the 10-25% data gap caused by ad blockers and browser restrictions.''),
      (''G47'',
       ''Fix conversion action priority: Go to Goals > Conversions. Set only Purchase + Phone Call as Primary (included in bidding). Set everything else (page views, add to cart, engagements) to Secondary. This prevents Smart Bidding from optimizing for micro-actions.''),
      (''G-CT1'',
       ''Remove duplicate conversion actions: Go to Goals > Conversions and identify actions tracking the same event (e.g., GA4 Purchase + Shopify Purchase). Keep one source per conversion type and set duplicates to Secondary.''),
      (''G05'',
       ''Create a brand Search campaign: Add exact and phrase match keywords for your brand name. Set budget to capture 95%+ impression share. Brand campaigns typically achieve 30-50x ROAS with $0.50-$1.50 CPCs.''),
      (''G36'',
       ''Switch to Smart Bidding: Create a campaign experiment (Settings > Experiments) testing Target ROAS or Max Conversions against your current Manual CPC. Run for 2 weeks to compare performance before full commitment.''),
      (''G04'',
       ''Consolidate fragmented campaigns to give Smart Bidding more conversion data per campaign. Merge campaigns with similar objectives and targeting into 5-10 focused campaigns.''),
      (''G14'',
       ''Build 3+ themed negative keyword lists: (1) Competitor names, (2) Job/career terms, (3) \"Free/DIY/cheap\" terms. Apply to all campaigns via Tools > Shared Library > Negative Keyword Lists. This typically saves 15-20% of wasted spend.''),
      (''G11'',
       ''Fix geo targeting: In each campaign, go to Settings > Locations > Location options. Change from \"Presence or Interest\" to \"Presence: People in or regularly in your targeted locations.\" This stops ads from showing to out-of-area users.''),
      (''G12'',
       ''Turn off Display Network on Search campaigns: Go to Settings > Networks and uncheck \"Include Google Display Network.\" Search campaigns on Display get <0.5% CTR with poor conversion rates.''),
      (''G56'',
       ''Add remarketing audiences: Create audiences in GA4 (all visitors 30d, cart abandoners, past purchasers) and apply to campaigns as observation layers. Remarketing audiences convert 3-5x higher than cold traffic.''),
      (''G57'',
       ''Upload Customer Match list: Export customer emails/phones from your CRM and upload via Tools > Audience Manager > Customer Match. This enables lookalike targeting and existing customer exclusion.''),
      (''G50'',
       ''Add 4+ sitelink extensions: Link to your top pages (pricing, reviews, categories, contact). Sitelinks increase CTR by 10-20% and push competitors down the page.''),
      (''G53'',
       ''Add image extensions to make ads 2-3x more visually prominent, especially on mobile. Upload high-quality product or service images in 1:1 and 1.91:1 aspect ratios.''),
      (''G16'',
       ''Pause or add negative product groups for zero-converting products with >$100 spend. Redirect that budget to proven high-ROAS products instead.''),
      (''G-AD1'',
       ''Create new ad variations to combat creative fatigue. Test different value propositions, CTAs, and emotional angles. Keep a control ad running alongside each test.''),
      (''G06'',
       ''Launch a PMax campaign with proper asset groups: add 20 images, 5 videos, 5 headlines, 5 descriptions, and audience signals (customer lists, website visitors, in-market segments).''),
      (''G08'',
       ''Reallocate budget: Increase budget on campaigns with ROAS above target and decrease on underperformers. Focus spend where it generates the most profitable returns.'')]"

definition times_table :: "(string \<times> string) list" where
  "times_table =
     [(''G42'', ''30 min''), (''G43'', ''5 min''), (''G44'', ''2 hrs''), (''G47'', ''15 min''),
      (''G-CT1'', ''10 min''), (''G05'', ''30 min''), (''G36'', ''10 min''), (''G04'', ''1 hr''),
      (''G14'', ''15 min''), (''G11'', ''2 min''), (''G12'', ''2 min''), (''G56'', ''15 min''),
      (''G57'', ''10 min''), (''G50'', ''15 min''), (''G53'', ''10 min''), (''G16'', ''10 min''),
      (''G-AD1'', ''30 min''), (''G06'', ''1 hr''), (''G08'', ''15 min'')]"

definition getQuickWinAction :: "check \<Rightarrow> jstext" where
  "getQuickWinAction c = str_or (js_get actions (id' c)) (finding c)"

definition getEstimatedTime :: "string \<Rightarrow> jstext" where
  "getEstimatedTime checkId = str_or (js_get times_table checkId) ''15 min''"

record quick_win =
  action :: jstext
  impact :: string
  time :: jstext
  check :: string

definition make_win :: "check \<Rightarrow> quick_win" where
  "make_win c =
     \<lparr>action = getQuickWinAction c, impact = severity c,
      time = getEstimatedTime (id' c), check = id' c\<rparr>"

definition is_win :: "check \<Rightarrow> bool" where
  "is_win c \<longleftrightarrow>
     result c = ''FAIL'' \<and> (severity c = ''Critical'' \<or> severity c = ''High'')"

text \<open>The inner and the outer loop of \<^verbatim>\<open>identifyQuickWins\<close>, pushing onto \<open>wins\<close>.\<close>

fun wins_checks :: "check list \<Rightarrow> quick_win list \<Rightarrow> quick_win list" where
  "wins_checks [] wins = wins"
| "wins_checks (c # cs) wins =
     wins_checks cs (if is_win c then wins @ [make_win c] else wins)"

fun wins_categories :: "(check, 'b) category_scheme list \<Rightarrow> quick_win list \<Rightarrow> quick_win list" where
  "wins_categories [] wins = wins"
| "wins_categories (cat # cats) wins = wins_categories cats (wins_checks (checks cat) wins)"

definition identifyQuickWins :: "(check, 'b) category_scheme list \<Rightarrow> quick_win list" where
  "identifyQuickWins categories = take 7 (wins_categories categories [])"

definition all_checks :: "('c, 'b) category_scheme list \<Rightarrow> 'c list" where
  \<comment> \<open>every check, categories in their order and checks in their order within each\<close>
  "all_checks categories = concat (map checks categories)"

definition failing :: "string \<Rightarrow> string \<Rightarrow> check" where
  "failing i s =
     \<lparr>id' = i, name = ''a check'', severity = s, result = ''FAIL'', finding = ''Needs work.''\<rparr>"

definition passing :: "string \<Rightarrow> string \<Rightarrow> check" where
  "passing i s =
     \<lparr>id' = i, name = ''a check'', severity = s, result = ''PASS'', finding = ''Fine.''\<rparr>"

definition example_wins_categories :: "check category list" where
  "example_wins_categories =
     [\<lparr>cname = ''Conversion Tracking'', weight = ''25%'',
       checks = [failing ''G42'' ''Critical'', failing ''G43'' ''Critical'', failing ''G44'' ''High'',
                 failing ''G46'' ''Medium'', passing ''G47'' ''High'', failing ''G-CT3'' ''Critical'']\<rparr>,
      \<lparr>cname = ''Wasted Spend / Negatives'', weight = ''20%'',
       checks = [failing ''G14'' ''Critical'', failing ''G15'' ''High'']\<rparr>,
      \<lparr>cname = ''Account Structure'', weight = ''15%'',
       checks = [failing ''G05'' ''Critical'', failing ''G11'' ''High'', failing ''G12'' ''High'']\<rparr>]"

section \<open>Snapshot record and recommendations\<close>

record snapshot =
  totalCampaigns :: nat
  enabledCampaigns :: nat
  activeCampaignsWithSpend :: nat
  totalAdGroups :: nat
  totalKeywords :: nat
  spend30d :: rat
  impressions30d :: rat
  clicks30d :: rat
  ctr :: rat
  avgCpc :: rat
  conversions30d :: rat
  conversionValue30d :: rat
  roas :: rat
  cpa :: rat
  searchImpressionShare :: "rat option"
  dailyBudget :: rat
  avgDailySpend :: rat

text \<open>
  The recommendation paragraphs of \<^verbatim>\<open>generateRecommendations\<close> are fixed texts, pairwise
  different; each is named by a constructor (the comment gives its first words). Two of
  them interpolate a number of the snapshot, which the constructor carries.
\<close>

datatype recommendation =
    CleanUpConversionTracking  \<comment> \<open>"Clean up conversion tracking ..."\<close>
  | EnableEnhancedConversions  \<comment> \<open>"Enable Enhanced Conversions for the primary conversion action. ..."\<close>
  | LaunchBrandCampaign  \<comment> \<open>"Launch a brand Search campaign immediately ..."\<close>
  | BuildNegativeLists  \<comment> \<open>"Build 3+ themed negative keyword lists and apply to all campaigns: ..."\<close>
  | FixGeoTargeting  \<comment> \<open>"Fix geographic targeting in all campaigns ..."\<close>
  | NoCriticalFailures  \<comment> \<open>"No critical failures found ..."\<close>
  | TestSmartBidding  \<comment> \<open>"Test Smart Bidding via campaign experiments: ..."\<close>
  | BuildAudienceInfrastructure  \<comment> \<open>"Build your audience infrastructure: ..."\<close>
  | LaunchPMax  \<comment> \<open>"Launch a PMax campaign with proper setup: ..."\<close>
  | RefreshAdCreative  \<comment> \<open>"Refresh ad creative: ..."\<close>
  | IncreaseImpressionShare rat  \<comment> \<open>"Increase Search Impression Share from \<open>n\<close>% toward 50%+ ..."\<close>
  | RaiseBudgets  \<comment> \<open>"Increase impression share on your highest-ROAS campaigns ..."\<close>
  | ScaleConversions rat  \<comment> \<open>"With \<open>n\<close> conversions/month, you have enough data to scale. ..."\<close>
  | TestDemandGen  \<comment> \<open>"Test Demand Gen campaigns for upper-funnel awareness ..."\<close>
  | ServerSideTracking  \<comment> \<open>"Implement server-side tracking via server-side GTM ..."\<close>

record phase_plan =
  phase :: string
  items :: "recommendation list"

fun startsWith :: "string \<Rightarrow> string \<Rightarrow> bool" where
  "startsWith s [] = True"
| "startsWith [] (p # ps) = False"
| "startsWith (c # cs) (p # ps) = (c = p \<and> startsWith cs ps)"

fun some :: "('a \<Rightarrow> bool) \<Rightarrow> 'a list \<Rightarrow> bool" where
  \<comment> \<open>\<^verbatim>\<open>Array.prototype.some\<close>\<close>
  "some p [] = False"
| "some p (x # xs) = (p x \<or> some p xs)"

text \<open>The two nested loops that collect \<^verbatim>\<open>failedChecks\<close>.\<close>

fun failed_checks :: "('a check_core_scheme) list \<Rightarrow> ('a check_core_scheme) list \<Rightarrow> ('a check_core_scheme) list" where
  "failed_checks [] acc = acc"
| "failed_checks (c # cs) acc =
     failed_checks cs (if result c = ''FAIL'' \<or> result c = ''WARNING'' then acc @ [c] else acc)"

fun failed_categories :: "('a check_core_scheme, 'b) category_scheme list \<Rightarrow> ('a check_core_scheme) list \<Rightarrow> ('a check_core_scheme) list" where
  "failed_categories [] acc = acc"
| "failed_categories (cat # cats) acc = failed_categories cats (failed_checks (checks cat) acc)"

definition phase1_items :: "('a check_core_scheme) list \<Rightarrow> recommendation list" where
  "phase1_items failedChecks =
     (let criticalFails = filter (\<lambda>c. severity c = ''Critical'' \<and> result c = ''FAIL'') failedChecks;
          phase1 =
            (if some (\<lambda>c. startsWith (id' c) ''G4'' \<or> startsWith (id' c) ''G-CT'') criticalFails
             then [CleanUpConversionTracking] else []) @
            (if some (\<lambda>c. id' c = ''G43'') criticalFails then [EnableEnhancedConversions] else []) @
            (if some (\<lambda>c. id' c = ''G05'') criticalFails then [LaunchBrandCampaign] else []) @
            (if some (\<lambda>c. id' c = ''G14'') criticalFails then [BuildNegativeLists] else []) @
            (if some (\<lambda>c. id' c = ''G11'') criticalFails then [FixGeoTargeting] else [])
      in if length phase1 = 0 then phase1 @ [NoCriticalFailures] else phase1)"

definition phase2_items :: "('a check_core_scheme) list \<Rightarrow> recommendation list" where
  "phase2_items failedChecks =
     (let highFails = filter (\<lambda>c. severity c = ''High'') failedChecks in
        (if some (\<lambda>c. id' c = ''G36'') highFails then [TestSmartBidding] else []) @
        (if some (\<lambda>c. id' c = ''G56'' \<or> id' c = ''G57'') highFails
         then [BuildAudienceInfrastructure] else []) @
        (if some (\<lambda>c. id' c = ''G06'') failedChecks then [LaunchPMax] else []) @
        [RefreshAdCreative])"

definition phase3_items :: "'s snapshot_scheme \<Rightarrow> recommendation list" where
  "phase3_items snap =
     (case searchImpressionShare snap of
        Some s \<Rightarrow> if s \<noteq> 0 \<and> s < 50 then [IncreaseImpressionShare s] else [RaiseBudgets]
      | None \<Rightarrow> [RaiseBudgets]) @
     (if conversions30d snap > 15 then [ScaleConversions (Math_round (conversions30d snap))] else []) @
     [TestDemandGen, ServerSideTracking]"

definition generateRecommendations ::
  "('a check_core_scheme, 'b) category_scheme list \<Rightarrow> string \<Rightarrow> 's snapshot_scheme \<Rightarrow> phase_plan list" where
  "generateRecommendations categories industry snap =
     (let failedChecks = failed_categories categories [] in
      [\<lparr>phase = ''Phase 1: Fix the Foundation (Week 1)'', items = phase1_items failedChecks\<rparr>,
       \<lparr>phase = ''Phase 2: Optimize & Expand (Weeks 2-3)'', items = phase2_items failedChecks\<rparr>,
       \<lparr>phase = ''Phase 3: Scale (Month 2+)'', items = phase3_items snap\<rparr>])"

definition phase2 :: "('a check_core_scheme, 'b) category_scheme list \<Rightarrow> string \<Rightarrow> 's snapshot_scheme \<Rightarrow> recommendation list" where
  \<comment> \<open>the items of the second phase of the plan\<close>
  "phase2 categories industry snap = items (generateRecommendations categories industry snap ! 1)"

definition flagged :: "'a check_core_scheme \<Rightarrow> bool" where
  \<comment> \<open>a check that failed or warned\<close>
  "flagged c \<longleftrightarrow> result c = ''FAIL'' \<or> result c = ''WARNING''"

definition example_snapshot :: snapshot where
  "example_snapshot =
     \<lparr>totalCampaigns = 2, enabledCampaigns = 1, activeCampaignsWithSpend = 1, totalAdGroups = 3,
      totalKeywords = 40, spend30d = 500, impressions30d = 1000, clicks30d = 25, ctr = 5 / 2,
      avgCpc = 20, conversions30d = 10, conversionValue30d = 900, roas = 9 / 5, cpa = 50,
      searchImpressionShare = None, dailyBudget = 20, avgDailySpend = 50 / 3\<rparr>"

definition warning_categories :: "check_core category list" where
  \<comment> \<open>manual bidding with few conversions: G36 warns, nothing fails\<close>
  "warning_categories =
     [\<lparr>cname = ''Settings & Targeting + Bidding'', weight = ''10%'',
       checks = [\<lparr>id' = ''G36'', name = ''Smart bidding strategy active'',
                  severity = ''High'', result = ''WARNING''\<rparr>,
                 \<lparr>id' = ''G56'', name = ''Audience segments applied'',
                  severity = ''High'', result = ''PASS''\<rparr>]\<rparr>]"

section \<open>Normalized rows and the account dataset\<close>

text \<open>
  A normalized row is a nested object; the script reads it along fixed paths such as
  \<^verbatim>\<open>r.metrics?.costMicros\<close>, and a path with a missing part reads as \<^verbatim>\<open>undefined\<close>. The row
  is modelled by one field per path read by the modelled functions, the dots of the path
  written as underscores. A text field holds what the normalizer can leave there:
  nothing, a string, or a boolean (the normalizer turns the strings \<^verbatim>\<open>'true'\<close> and
  \<^verbatim>\<open>'false'\<close> of any column into booleans). A numeric field holds a number or nothing.
\<close>

datatype jsval = JUndefined | JBool bool | JString string

record row =
  campaign_status :: jsval
  campaign_advertisingChannelType :: jsval
  metrics_impressions :: "rat option"
  metrics_clicks :: "rat option"
  metrics_conversions :: "rat option"
  metrics_conversionsValue :: "rat option"
  metrics_conversions_value :: "rat option"
  metrics_costMicros :: "rat option"
  metrics_cost_micros :: "rat option"
  metrics_searchImpressionShare :: "rat option"
  metrics_search_impression_share :: "rat option"
  campaignBudget_amountMicros :: "rat option"
  campaign_budget_amount_micros :: "rat option"
  segments_productTitle :: jsval
  segments_product_title :: jsval
  segments_productItemId :: jsval
  conversionAction_name :: jsval
  conversionAction_type :: jsval
  conversionAction_status :: jsval
  conversionAction_category :: jsval
  conversionAction_includeInConversionsMetric :: jsval
  adGroupCriterion_qualityInfo_qualityScore :: "rat option"

definition empty_row :: row where
  \<comment> \<open>the row \<^verbatim>\<open>{}\<close>: every path reads as undefined\<close>
  "empty_row =
     \<lparr>campaign_status = JUndefined, campaign_advertisingChannelType = JUndefined,
      metrics_impressions = None, metrics_clicks = None, metrics_conversions = None,
      metrics_conversionsValue = None, metrics_conversions_value = None,
      metrics_costMicros = None, metrics_cost_micros = None,
      metrics_searchImpressionShare = None, metrics_search_impression_share = None,
      campaignBudget_amountMicros = None, campaign_budget_amount_micros = None,
      segments_productTitle = JUndefined, segments_product_title = JUndefined,
      segments_productItemId = JUndefined,
      conversionAction_name = JUndefined, conversionAction_type = JUndefined,
      conversionAction_status = JUndefined, conversionAction_category = JUndefined,
      conversionAction_includeInConversionsMetric = JUndefined,
      adGroupCriterion_qualityInfo_qualityScore = None\<rparr>"

text \<open>
  The account dataset. An entry is an array of rows, or \<open>None\<close> when it is missing or is
  not an array.
\<close>

record dataset =
  campaigns :: "row list option"
  campaign_budgets :: "row list option"
  account_metrics :: "row list option"
  campaign_metrics :: "row list option"
  conversion_actions :: "row list option"
  ad_groups :: "row list option"
  keywords' :: "row list option"
  ads :: "row list option"
  assets :: "row list option"
  geo_targeting :: "row list option"
  shopping_performance :: "row list option"
  negative_lists :: "row list option"
  user_lists :: "row list option"

definition empty_dataset :: dataset where
  \<comment> \<open>the dataset \<^verbatim>\<open>{}\<close>: every entry is missing\<close>
  "empty_dataset =
     \<lparr>campaigns = None, campaign_budgets = None, account_metrics = None,
      campaign_metrics = None, conversion_actions = None, ad_groups = None, keywords' = None,
      ads = None, assets = None, geo_targeting = None, shopping_performance = None,
      negative_lists = None, user_lists = None\<rparr>"

fun safeArray :: "'a list option \<Rightarrow> 'a list" where
  "safeArray None = []"
| "safeArray (Some rows) = rows"

fun truthy :: "jsval \<Rightarrow> bool" where
  "truthy JUndefined = False"
| "truthy (JBool b) = b"
| "truthy (JString s) = (s \<noteq> [])"

definition js_or :: "jsval \<Rightarrow> jsval \<Rightarrow> jsval" where
  \<comment> \<open>\<^verbatim>\<open>a || b\<close> on text values\<close>
  "js_or a b = (if truthy a then a else b)"

definition num_else :: "rat option \<Rightarrow> rat option \<Rightarrow> rat option" where
  \<comment> \<open>\<^verbatim>\<open>a || b\<close> on numeric values: \<open>a\<close> unless it is undefined or zero\<close>
  "num_else a b = (case a of Some v \<Rightarrow> if v = 0 then b else a | None \<Rightarrow> b)"

fun number_or_zero :: "rat option \<Rightarrow> rat" where
  \<comment> \<open>\<^verbatim>\<open>Number(x) || 0\<close> and \<^verbatim>\<open>Number(x || 0)\<close>: both are the number, and 0 for undefined\<close>
  "number_or_zero None = 0"
| "number_or_zero (Some v) = v"

definition microsToDollars :: "rat option \<Rightarrow> rat" where
  "microsToDollars micros = number_or_zero micros / 1000000"

section \<open>Snapshot\<close>

record totals =
  totalSpend :: rat
  totalImpressions :: rat
  totalClicks :: rat
  totalConv :: rat
  totalConvValue :: rat

text \<open>The \<^verbatim>\<open>forEach\<close> over the account metric rows, adding to the five totals.\<close>

fun totals_loop :: "row list \<Rightarrow> totals \<Rightarrow> totals" where
  "totals_loop [] t = t"
| "totals_loop (r # rs) t =
     totals_loop rs
       \<lparr>totalSpend = totalSpend t +
          microsToDollars (num_else (num_else (metrics_costMicros r) (metrics_cost_micros r)) (Some 0)),
        totalImpressions = totalImpressions t + number_or_zero (num_else (metrics_impressions r) (Some 0)),
        totalClicks = totalClicks t + number_or_zero (num_else (metrics_clicks r) (Some 0)),
        totalConv = totalConv t + number_or_zero (num_else (metrics_conversions r) (Some 0)),
        totalConvValue = totalConvValue t +
          number_or_zero (num_else (num_else (metrics_conversionsValue r) (metrics_conversions_value r)) (Some 0))\<rparr>"

fun budget_loop :: "row list \<Rightarrow> rat \<Rightarrow> rat" where
  "budget_loop [] totalBudget = totalBudget"
| "budget_loop (r # rs) totalBudget =
     budget_loop rs (totalBudget +
       microsToDollars (num_else (num_else (campaignBudget_amountMicros r) (campaign_budget_amount_micros r)) (Some 0)))"

definition first_share :: "row list \<Rightarrow> rat option" where
  \<comment> \<open>\<^verbatim>\<open>acctMetrics[0]?.metrics?.searchImpressionShare || acctMetrics[0]?.metrics?.search_impression_share\<close>\<close>
  "first_share acctMetrics =
     (case acctMetrics of
        [] \<Rightarrow> None
      | r # rs \<Rightarrow> num_else (metrics_searchImpressionShare r) (metrics_search_impression_share r))"

definition buildSnapshot :: "dataset \<Rightarrow> snapshot" where
  "buildSnapshot data =
     (let campaigns = safeArray (campaigns data);
          campaignMetrics = safeArray (campaign_metrics data);
          campaignBudgets = safeArray (campaign_budgets data);
          acctMetrics = safeArray (account_metrics data);
          adGroups = safeArray (ad_groups data);
          keywords = safeArray (keywords' data);
          enabledCampaigns =
            filter (\<lambda>r. js_or (campaign_status r) (JString []) = JString ''ENABLED'') campaigns;
          activeCampaignsWithSpend =
            length (filter (\<lambda>r. microsToDollars (num_else (metrics_costMicros r) (metrics_cost_micros r)) > 0)
                      campaignMetrics);
          t = totals_loop acctMetrics
                \<lparr>totalSpend = 0, totalImpressions = 0, totalClicks = 0, totalConv = 0, totalConvValue = 0\<rparr>;
          ctr = (if totalImpressions t > 0
                 then Math_round ((totalClicks t / totalImpressions t) * 10000) / 100 else 0);
          avgCpc = (if totalClicks t > 0
                    then Math_round ((totalSpend t / totalClicks t) * 100) / 100 else 0);
          roas = (if totalSpend t > 0
                  then Math_round ((totalConvValue t / totalSpend t) * 100) / 100 else 0);
          cpa = (if totalConv t > 0
                 then Math_round ((totalSpend t / totalConv t) * 100) / 100 else 0);
          sis = first_share acctMetrics;
          sisValue = (case sis of
                        None \<Rightarrow> None
                      | Some s \<Rightarrow> if s = 0 then None else Some (Math_round (s * 10000) / 100));
          totalBudget = budget_loop campaignBudgets 0
      in \<lparr>totalCampaigns = length campaigns,
          enabledCampaigns = length enabledCampaigns,
          activeCampaignsWithSpend = activeCampaignsWithSpend,
          totalAdGroups = length adGroups,
          totalKeywords = length keywords,
          spend30d = Math_round (totalSpend t * 100) / 100,
          impressions30d = totalImpressions t,
          clicks30d = totalClicks t,
          ctr = ctr,
          avgCpc = avgCpc,
          conversions30d = Math_round (totalConv t * 10) / 10,
          conversionValue30d = Math_round (totalConvValue t),
          roas = roas,
          cpa = cpa,
          searchImpressionShare = sisValue,
          dailyBudget = Math_round totalBudget,
          avgDailySpend = Math_round ((totalSpend t / 30) * 100) / 100\<rparr>)"


definition account_rows :: "dataset \<Rightarrow> row list" where
  "account_rows data = safeArray (account_metrics data)"

definition sum_impressions :: "dataset \<Rightarrow> rat" where
  "sum_impressions data = (\<Sum>r\<leftarrow>account_rows data. number_or_zero (metrics_impressions r))"

definition sum_clicks :: "dataset \<Rightarrow> rat" where
  "sum_clicks data = (\<Sum>r\<leftarrow>account_rows data. number_or_zero (metrics_clicks r))"

definition sum_conversions :: "dataset \<Rightarrow> rat" where
  "sum_conversions data = (\<Sum>r\<leftarrow>account_rows data. number_or_zero (metrics_conversions r))"

definition sum_spend :: "dataset \<Rightarrow> rat" where
  "sum_spend data =
     (\<Sum>r\<leftarrow>account_rows data.
        number_or_zero (num_else (metrics_costMicros r) (metrics_cost_micros r)) / 1000000)"

definition sum_value :: "dataset \<Rightarrow> rat" where
  "sum_value data =
     (\<Sum>r\<leftarrow>account_rows data.
        number_or_zero (num_else (metrics_conversionsValue r) (metrics_conversions_value r)))"




section \<open>Product analysis\<close>




record product_entry =
  product' :: jsval
  spend :: rat
  conversions :: rat
  value' :: rat















section \<open>Category evaluators\<close>

text \<open>
  The evaluators are modelled up to the finding texts: a check is built with its id, name,
  severity and result. Strings are Isabelle strings; \<^verbatim>\<open>toLowerCase\<close> maps the letters A to Z
  and leaves every other character as it is.

  A method call on a value that is not a string raises a \<^verbatim>\<open>TypeError\<close>. The script
  guards text fields with \<^verbatim>\<open>|| ''\<close>, which replaces \<^verbatim>\<open>undefined\<close>, \<^verbatim>\<open>false\<close> and the empty
  string but lets the boolean \<^verbatim>\<open>true\<close> through.
\<close>

datatype error = TypeError

definition lower_char :: "char \<Rightarrow> char" where
  "lower_char c =
     (case map_of (zip ''ABCDEFGHIJKLMNOPQRSTUVWXYZ'' ''abcdefghijklmnopqrstuvwxyz'') c of
        Some l \<Rightarrow> l
      | None \<Rightarrow> c)"

definition toLowerCase :: "string \<Rightarrow> string" where
  "toLowerCase s = map lower_char s"

fun includes' :: "string \<Rightarrow> string \<Rightarrow> bool" where
  \<comment> \<open>\<^verbatim>\<open>s.includes(sub)\<close>\<close>
  "includes' [] sub = (sub = [])"
| "includes' (c # cs) sub = (startsWith (c # cs) sub \<or> includes' cs sub)"

fun string_of_nat :: "nat \<Rightarrow> string" where
  \<comment> \<open>a count in decimal, as a template literal prints it\<close>
  "string_of_nat n =
     (if n < 10 then [''0123456789'' ! n]
      else string_of_nat (n div 10) @ [''0123456789'' ! (n mod 10)])"

definition duplicate_keywords :: "string list" where
  "duplicate_keywords =
     [''purchase'', ''buy'', ''order'', ''phone'', ''call'', ''lead'', ''form'', ''submit'', ''contact'']"

definition pattern_text :: "nat \<Rightarrow> string \<Rightarrow> string" where
  \<comment> \<open>the template \<^verbatim>\<open>`${matches.length}x "${kw}" actions`\<close>\<close>
  "pattern_text n kw = string_of_nat n @ ''x \"'' @ kw @ ''\" actions''"

fun patterns_loop :: "string list \<Rightarrow> string list \<Rightarrow> string list \<Rightarrow> string list" where
  "patterns_loop [] names patterns = patterns"
| "patterns_loop (kw # kws) names patterns =
     (let matches = filter (\<lambda>n. includes' n kw) names in
      patterns_loop kws names
        (if length matches > 1 then patterns @ [pattern_text (length matches) kw] else patterns))"

definition findDuplicatePatterns :: "string list \<Rightarrow> string list" where
  "findDuplicatePatterns names = patterns_loop duplicate_keywords names []"

definition lower_name :: "jsval \<Rightarrow> error + string" where
  \<comment> \<open>\<^verbatim>\<open>(name || '').toLowerCase()\<close>\<close>
  "lower_name v =
     (case js_or v (JString []) of
        JString s \<Rightarrow> Inr (toLowerCase s)
      | JBool b \<Rightarrow> Inl TypeError
      | JUndefined \<Rightarrow> Inl TypeError)"

fun lower_names :: "row list \<Rightarrow> error + string list" where
  \<comment> \<open>the \<^verbatim>\<open>map\<close> that lowercases the conversion action names; the first raise ends it\<close>
  "lower_names [] = Inr []"
| "lower_names (r # rs) =
     (case lower_name (conversionAction_name r) of
        Inl e \<Rightarrow> Inl e
      | Inr n \<Rightarrow> (case lower_names rs of Inl e \<Rightarrow> Inl e | Inr ns \<Rightarrow> Inr (n # ns)))"

fun conversions_loop :: "row list \<Rightarrow> rat \<Rightarrow> rat" where
  \<comment> \<open>\<^verbatim>\<open>acctMetrics.forEach(r => { totalConv += Number(r.metrics?.conversions || 0); })\<close>\<close>
  "conversions_loop [] acc = acc"
| "conversions_loop (r # rs) acc =
     conversions_loop rs (acc + number_or_zero (num_else (metrics_conversions r) (Some 0)))"

definition text_is :: "jsval \<Rightarrow> string \<Rightarrow> bool" where
  \<comment> \<open>\<^verbatim>\<open>(v || '') === s\<close>\<close>
  "text_is v s \<longleftrightarrow> js_or v (JString []) = JString s"

definition mk_check :: "string \<Rightarrow> string \<Rightarrow> string \<Rightarrow> string \<Rightarrow> check_core" where
  "mk_check i n s r = \<lparr>id' = i, name = n, severity = s, result = r\<rparr>"

definition microCategories :: "string list" where
  "microCategories =
     [''PAGE_VIEW'', ''ADD_TO_CART'', ''BEGIN_CHECKOUT'', ''GET_DIRECTIONS'', ''ENGAGEMENT'',
      ''SUBSCRIBE_PAID'', ''OTHER'']"

definition checkConversionTracking :: "dataset \<Rightarrow> error + check_core category" where
  "checkConversionTracking data =
     (let convActions = safeArray (conversion_actions data);
          acctMetrics = safeArray (account_metrics data);
          totalConv = conversions_loop acctMetrics 0;
          convCount = length convActions;
          hasEnhanced = some (\<lambda>r. text_is (conversionAction_type r) ''UPLOAD_CLICKS'' \<or>
                                    text_is (conversionAction_type r) ''UPLOAD_CALLS'') convActions;
          hasServerSide = some (\<lambda>r. text_is (conversionAction_type r) ''UPLOAD_CLICKS'' \<or>
                                      text_is (conversionAction_type r) ''UPLOAD_CALLS'' \<or>
                                      text_is (conversionAction_type r) ''STORE_SALES_DIRECT_UPLOAD'')
                            convActions;
          primaryActions =
            filter (\<lambda>r. conversionAction_includeInConversionsMetric r = JBool True) convActions;
          microAsPrimary =
            filter (\<lambda>r. some (text_is (conversionAction_category r)) microCategories) primaryActions
      in case lower_names convActions of
           Inl e \<Rightarrow> Inl e
         | Inr actionNames \<Rightarrow>
            (let duplicatePatterns = findDuplicatePatterns actionNames;
                 hasGA4 = some (\<lambda>(r, n). text_is (conversionAction_type r) ''GOOGLE_ANALYTICS_4'' \<or>
                                          includes' n ''ga4'') (zip convActions actionNames);
                 activeActions = filter (\<lambda>r. text_is (conversionAction_status r) ''ENABLED'') convActions
             in Inr \<lparr>cname = ''Conversion Tracking'', weight = ''25%'',
                  checks =
                    [mk_check ''G42'' ''Conversion actions defined'' ''Critical''
                       (if convCount > 0 then ''PASS'' else ''FAIL''),
                     mk_check ''G43'' ''Enhanced conversions enabled'' ''Critical''
                       (if hasEnhanced then ''PASS'' else if totalConv < 30 then ''FAIL'' else ''WARNING''),
                     mk_check ''G44'' ''Server-side tracking'' ''High''
                       (if hasServerSide then ''PASS'' else ''FAIL''),
                     mk_check ''G45'' ''Consent Mode v2 (EU/EEA)'' ''Critical'' ''N/A'',
                     mk_check ''G46'' ''Conversion window appropriate'' ''Medium''
                       (if convCount > 0 then ''WARNING'' else ''N/A''),
                     mk_check ''G47'' ''Micro vs macro separation'' ''High''
                       (if length microAsPrimary = 0 then ''PASS''
                        else if length microAsPrimary \<le> 2 then ''WARNING'' else ''FAIL''),
                     mk_check ''G48'' ''Attribution model'' ''Medium'' ''N/A'',
                     mk_check ''G49'' ''Conversion value assignment'' ''High''
                       (if length primaryActions > 0 then ''WARNING'' else ''N/A''),
                     mk_check ''G-CT1'' ''No duplicate counting'' ''Critical''
                       (if length duplicatePatterns = 0 then ''PASS''
                        else if length duplicatePatterns \<le> 1 then ''WARNING'' else ''FAIL''),
                     mk_check ''G-CT2'' ''GA4 linked and flowing'' ''High''
                       (if hasGA4 then ''PASS'' else ''WARNING''),
                     mk_check ''G-CT3'' ''Google Tag firing'' ''Critical''
                       (if length activeActions > 0 \<and> totalConv > 0 then ''PASS''
                        else if length activeActions > 0 then ''WARNING'' else ''FAIL'')]\<rparr>))"

definition checkKeywordsQS :: "dataset \<Rightarrow> check_core category" where
  "checkKeywordsQS data =
     (let keywords = safeArray (keywords' data);
          campaigns = safeArray (campaigns data);
          hasActiveSearch = some (\<lambda>r. text_is (campaign_advertisingChannelType r) ''SEARCH'' \<and>
                                        text_is (campaign_status r) ''ENABLED'') campaigns
      in if \<not> hasActiveSearch \<or> length keywords = 0
         then \<lparr>cname = ''Keywords & Quality Score'', weight = ''15%'',
               checks =
                 [mk_check ''G20-G25'' ''Quality Score checks'' ''High'' ''N/A'',
                  mk_check ''G-KW1'' ''Zero-impression keywords'' ''Medium'' ''N/A'',
                  mk_check ''G-KW2'' ''Keyword-to-ad relevance'' ''High'' ''N/A'']\<rparr>
         else
           (let qsScores =
                  filter (\<lambda>q. q > 0)
                    (map (\<lambda>r. number_or_zero (num_else (adGroupCriterion_qualityInfo_qualityScore r) (Some 0)))
                       keywords);
                avgQS = (if length qsScores > 0 then sum_list qsScores / of_nat (length qsScores) else 0)
            in \<lparr>cname = ''Keywords & Quality Score'', weight = ''15%'',
                 checks =
                   [mk_check ''G20-G25'' ''Quality Score checks'' ''High''
                      (if avgQS \<ge> 7 then ''PASS'' else if avgQS \<ge> 5 then ''WARNING'' else ''FAIL''),
                    mk_check ''G-KW1'' ''Zero-impression keywords'' ''Medium'' ''WARNING'',
                    mk_check ''G-KW2'' ''Keyword-to-ad relevance'' ''High''
                      (if avgQS \<ge> 6 then ''PASS'' else ''WARNING'')]\<rparr>))"

definition result_of :: "string \<Rightarrow> ('a check_core_scheme) list \<Rightarrow> string option" where
  \<comment> \<open>the result of the check with a given id\<close>
  "result_of i cs = map_option result (find (\<lambda>c. id' c = i) cs)"

definition keyword_count :: "string \<Rightarrow> string list \<Rightarrow> nat" where
  \<comment> \<open>the number of names that contain a keyword\<close>
  "keyword_count kw names = length (filter (\<lambda>n. includes' n kw) names)"

definition named_action :: "jsval \<Rightarrow> row" where
  "named_action n = empty_row\<lparr>conversionAction_name := n, conversionAction_status := JString ''ENABLED''\<rparr>"

definition purchase_names :: "string list" where
  "purchase_names = [''Purchase - GA4'', ''Purchase - Shopify'', ''Lead Form'']"

definition purchase_dataset :: dataset where
  "purchase_dataset =
     empty_dataset\<lparr>conversion_actions := Some (map (\<lambda>n. named_action (JString n)) purchase_names)\<rparr>"

definition coerce :: "string \<Rightarrow> jsval" where
  \<comment> \<open>what \<^verbatim>\<open>transformColumnarData\<close> stores for a string cell of any column\<close>
  "coerce val = (if val = ''true'' then JBool True else if val = ''false'' then JBool False else JString val)"

definition true_name_dataset :: dataset where
  \<comment> \<open>one conversion action, named \<^verbatim>\<open>true\<close>: the normalizer turns its name into a boolean\<close>
  "true_name_dataset = empty_dataset\<lparr>conversion_actions := Some [named_action (coerce ''true'')]\<rparr>"

section \<open>Verification of the scorer\<close>














section \<open>Verification of the overall score\<close>







lemma not_null_value:
  "s \<noteq> None \<Longrightarrow> s \<noteq> Some NaN \<Longrightarrow> s = Some (Num (score_value s))"
  by (cases s rule: score_value.cases) auto




section \<open>Verification of the quick-win selector\<close>

lemma wins_checks_closed: "wins_checks cs wins = wins @ map make_win (filter is_win cs)"
  by (induction cs arbitrary: wins) simp_all

lemma wins_categories_closed:
  "wins_categories cats wins = wins @ map make_win (filter is_win (all_checks cats))"
  by (induction cats arbitrary: wins) (simp_all add: all_checks_def wins_checks_closed)

text \<open>
  Claim C6. The quick wins are the checks with result FAIL and severity Critical or High,
  taken over the categories in their order and the checks of each category in their
  order, cut to the first 7. So the list has at most 7 entries, and every entry carries
  the severity and the id of a failing Critical or High check of some category.
\<close>

theorem identifyQuickWins_spec:
  "identifyQuickWins cats = take 7 (map make_win (filter is_win (all_checks cats)))
   \<and> length (identifyQuickWins cats) \<le> 7
   \<and> (\<forall>w \<in> set (identifyQuickWins cats).
         (impact w = ''Critical'' \<or> impact w = ''High'') \<and>
         (\<exists>cat \<in> set cats. \<exists>c \<in> set (checks cat).
            result c = ''FAIL'' \<and> severity c = impact w \<and> id' c = check w \<and> w = make_win c))"
proof -
  have eq: "identifyQuickWins cats = take 7 (map make_win (filter is_win (all_checks cats)))"
    by (simp add: identifyQuickWins_def wins_categories_closed)
  have len: "length (identifyQuickWins cats) \<le> 7" by (simp add: eq)
  have origin: "(impact w = ''Critical'' \<or> impact w = ''High'') \<and>
         (\<exists>cat \<in> set cats. \<exists>c \<in> set (checks cat).
            result c = ''FAIL'' \<and> severity c = impact w \<and> id' c = check w \<and> w = make_win c)"
    if "w \<in> set (identifyQuickWins cats)" for w
  proof -
    from that have "w \<in> set (map make_win (filter is_win (all_checks cats)))"
      unfolding eq by (rule in_set_takeD)
    then obtain c where c: "c \<in> set (all_checks cats)" "is_win c" "w = make_win c" by auto
    from c(1) obtain cat where "cat \<in> set cats" "c \<in> set (checks cat)"
      by (auto simp: all_checks_def)
    then show ?thesis using c(2,3) by (auto simp: is_win_def make_win_def)
  qed
  show ?thesis using eq len origin by blast
qed

text \<open>
  Three categories with nine failing Critical or High checks, one failing Medium check and
  one passing check: the first seven failing Critical or High checks are kept, in order.
\<close>

theorem identifyQuickWins_spec_witness:
  "map check (identifyQuickWins example_wins_categories) =
     [''G42'', ''G43'', ''G44'', ''G-CT3'', ''G14'', ''G15'', ''G05'']
   \<and> map impact (identifyQuickWins example_wins_categories) =
     [''Critical'', ''Critical'', ''High'', ''Critical'', ''Critical'', ''High'', ''Critical'']
   \<and> length (filter is_win (all_checks example_wins_categories)) = 9"
proof -
  have f: "filter is_win (all_checks example_wins_categories) =
     [failing ''G42'' ''Critical'', failing ''G43'' ''Critical'', failing ''G44'' ''High'',
      failing ''G-CT3'' ''Critical'', failing ''G14'' ''Critical'', failing ''G15'' ''High'',
      failing ''G05'' ''Critical'', failing ''G11'' ''High'', failing ''G12'' ''High'']"
    by (simp add: example_wins_categories_def all_checks_def is_win_def failing_def passing_def)
  have "identifyQuickWins example_wins_categories =
     take 7 (map make_win (filter is_win (all_checks example_wins_categories)))"
    using identifyQuickWins_spec[of example_wins_categories] by blast
  then show ?thesis unfolding f by (simp add: make_win_def failing_def)
qed

section \<open>Verification of the recommendation synthesizer\<close>

lemma some_iff: "some p xs \<longleftrightarrow> (\<exists>x \<in> set xs. p x)"
  by (induction xs) auto

lemma failed_checks_closed: "failed_checks cs acc = acc @ filter flagged cs"
  by (induction cs arbitrary: acc) (simp_all add: flagged_def)

lemma failed_categories_closed:
  "failed_categories cats acc = acc @ filter flagged (all_checks cats)"
  by (induction cats arbitrary: acc) (simp_all add: all_checks_def failed_checks_closed)

text \<open>
  Claim C5, as the code has it. Phase 2 is, in this order: the smart-bidding paragraph
  exactly when some check with id G36 and severity High has result FAIL or WARNING; the
  audience paragraph exactly when some check with id G56 or G57 and severity High has
  result FAIL or WARNING; the PMax paragraph exactly when some check with id G06, of any
  severity, has result FAIL or WARNING; and always the creative-refresh paragraph, once
  and last.
\<close>

theorem phase2_spec:
  "phase2 cats industry snap =
     (if (\<exists>c \<in> set (all_checks cats). id' c = ''G36'' \<and> severity c = ''High'' \<and> flagged c)
      then [TestSmartBidding] else []) @
     (if (\<exists>c \<in> set (all_checks cats). (id' c = ''G56'' \<or> id' c = ''G57'') \<and> severity c = ''High'' \<and> flagged c)
      then [BuildAudienceInfrastructure] else []) @
     (if (\<exists>c \<in> set (all_checks cats). id' c = ''G06'' \<and> flagged c)
      then [LaunchPMax] else []) @
     [RefreshAdCreative]
   \<and> last (phase2 cats industry snap) = RefreshAdCreative
   \<and> count_list (phase2 cats industry snap) RefreshAdCreative = 1"
proof -
  have f: "failed_categories cats [] = filter flagged (all_checks cats)"
    by (simp add: failed_categories_closed)
  have eq: "phase2 cats industry snap =
     (if (\<exists>c \<in> set (all_checks cats). id' c = ''G36'' \<and> severity c = ''High'' \<and> flagged c)
      then [TestSmartBidding] else []) @
     (if (\<exists>c \<in> set (all_checks cats). (id' c = ''G56'' \<or> id' c = ''G57'') \<and> severity c = ''High'' \<and> flagged c)
      then [BuildAudienceInfrastructure] else []) @
     (if (\<exists>c \<in> set (all_checks cats). id' c = ''G06'' \<and> flagged c)
      then [LaunchPMax] else []) @
     [RefreshAdCreative]"
    unfolding phase2_def generateRecommendations_def phase2_items_def Let_def f some_iff
    by (auto simp: conj_commute)
  show ?thesis unfolding eq by simp
qed

theorem phase2_spec_witness:
  "phase2 warning_categories ''General'' example_snapshot = [TestSmartBidding, RefreshAdCreative]"
proof -
  have a: "\<exists>c \<in> set (all_checks warning_categories).
      id' c = ''G36'' \<and> severity c = ''High'' \<and> flagged c"
    by (simp add: warning_categories_def all_checks_def flagged_def)
  have b: "\<not> (\<exists>c \<in> set (all_checks warning_categories).
      (id' c = ''G56'' \<or> id' c = ''G57'') \<and> severity c = ''High'' \<and> flagged c)"
    by (simp add: warning_categories_def all_checks_def flagged_def)
  have c: "\<not> (\<exists>c \<in> set (all_checks warning_categories). id' c = ''G06'' \<and> flagged c)"
    by (simp add: warning_categories_def all_checks_def flagged_def)
  show ?thesis
    using phase2_spec[of warning_categories "''General''" example_snapshot] a b c by simp
qed

text \<open>
  The claim C5 as the specification words it (a paragraph exactly when the rule is a
  High-severity FAIL) fails: with G36 at High severity and result WARNING and no failing
  check at all, Phase 2 contains the smart-bidding paragraph.
\<close>

theorem phase2_counterexample:
  "TestSmartBidding \<in> set (phase2 warning_categories ''General'' example_snapshot) \<and>
   \<not> some (\<lambda>c. id' c = ''G36'' \<and> severity c = ''High'' \<and> result c = ''FAIL'')
        (all_checks warning_categories) \<and>
   \<not> some (\<lambda>c. result c = ''FAIL'') (all_checks warning_categories)"
  by code_simp

section \<open>Verification of the snapshot\<close>

lemma num_else_zero [simp]: "number_or_zero (num_else a (Some 0)) = number_or_zero a"
  by (cases a) (simp_all add: num_else_def)

lemma totals_loop_sums:
  "totals_loop rs t =
     \<lparr>totalSpend = totalSpend t +
        (\<Sum>r\<leftarrow>rs. number_or_zero (num_else (metrics_costMicros r) (metrics_cost_micros r)) / 1000000),
      totalImpressions = totalImpressions t + (\<Sum>r\<leftarrow>rs. number_or_zero (metrics_impressions r)),
      totalClicks = totalClicks t + (\<Sum>r\<leftarrow>rs. number_or_zero (metrics_clicks r)),
      totalConv = totalConv t + (\<Sum>r\<leftarrow>rs. number_or_zero (metrics_conversions r)),
      totalConvValue = totalConvValue t +
        (\<Sum>r\<leftarrow>rs. number_or_zero (num_else (metrics_conversionsValue r) (metrics_conversions_value r)))\<rparr>"
  by (induction rs arbitrary: t) (simp_all add: microsToDollars_def add.assoc)

lemma totals_of_dataset:
  "totals_loop (safeArray (account_metrics data))
     \<lparr>totalSpend = 0, totalImpressions = 0, totalClicks = 0, totalConv = 0, totalConvValue = 0\<rparr> =
   \<lparr>totalSpend = sum_spend data, totalImpressions = sum_impressions data,
    totalClicks = sum_clicks data, totalConv = sum_conversions data,
    totalConvValue = sum_value data\<rparr>"
  by (simp add: totals_loop_sums sum_spend_def sum_impressions_def sum_clicks_def
      sum_conversions_def sum_value_def account_rows_def)

lemma snapshot_fields:
  "ctr (buildSnapshot data) =
     (if sum_impressions data > 0
      then Math_round ((sum_clicks data / sum_impressions data) * 10000) / 100 else 0)"
  "avgCpc (buildSnapshot data) =
     (if sum_clicks data > 0
      then Math_round ((sum_spend data / sum_clicks data) * 100) / 100 else 0)"
  "roas (buildSnapshot data) =
     (if sum_spend data > 0
      then Math_round ((sum_value data / sum_spend data) * 100) / 100 else 0)"
  "cpa (buildSnapshot data) =
     (if sum_conversions data > 0
      then Math_round ((sum_spend data / sum_conversions data) * 100) / 100 else 0)"
  "searchImpressionShare (buildSnapshot data) =
     (case first_share (account_rows data) of
        None \<Rightarrow> None
      | Some s \<Rightarrow> if s = 0 then None else Some (Math_round (s * 10000) / 100))"
  by (simp_all add: buildSnapshot_def Let_def totals_of_dataset account_rows_def)

lemma zero_share_is_null:
  "account_rows data = r # rs \<Longrightarrow> metrics_searchImpressionShare r = Some 0 \<Longrightarrow>
   metrics_search_impression_share r = None \<Longrightarrow>
   searchImpressionShare (buildSnapshot data) = None"
  by (simp add: snapshot_fields first_share_def num_else_def)




section \<open>Verification of the product analysis\<close>















section \<open>Verification of the duplicate detector\<close>

lemma patterns_loop_closed:
  "patterns_loop kws names patterns =
     patterns @ map (\<lambda>kw. pattern_text (keyword_count kw names) kw)
                  (filter (\<lambda>kw. keyword_count kw names > 1) kws)"
  by (induction kws arbitrary: patterns) (simp_all add: keyword_count_def Let_def)

lemma lower_names_strings:
  "map conversionAction_name rows = map JString names \<Longrightarrow>
   lower_names rows = Inr (map toLowerCase names)"
proof (induction rows arbitrary: names)
  case Nil
  then show ?case by simp
next
  case (Cons r rows)
  then obtain n ns where n: "names = n # ns" "conversionAction_name r = JString n"
    "map conversionAction_name rows = map JString ns" by (cases names) auto
  have "lower_name (JString n) = Inr (toLowerCase n)"
    by (simp add: lower_name_def js_or_def toLowerCase_def)
  then show ?case using Cons.IH[OF n(3)] n by simp
qed

lemma checkConversionTracking_returns:
  assumes "lower_names (safeArray (conversion_actions data)) = Inr actionNames"
  shows "\<exists>cat. checkConversionTracking data = Inr cat \<and>
           map id' (checks cat) =
             [''G42'', ''G43'', ''G44'', ''G45'', ''G46'', ''G47'', ''G48'', ''G49'',
              ''G-CT1'', ''G-CT2'', ''G-CT3''] \<and>
           result_of ''G-CT1'' (checks cat) =
             Some (if length (findDuplicatePatterns actionNames) = 0 then ''PASS''
                   else if length (findDuplicatePatterns actionNames) \<le> 1 then ''WARNING''
                   else ''FAIL'')"
  using assms by (simp add: checkConversionTracking_def Let_def mk_check_def result_of_def)

text \<open>
  Claim C7. The detector reports, for each keyword of the fixed list in order, one pattern
  with the count of (lowercased) names that contain the keyword, whenever that count
  exceeds 1. When the conversion actions are named by strings, the evaluator lowercases
  the names, and its duplicate-counting check G-CT1 has result PASS with 0 patterns,
  WARNING with exactly 1, and FAIL with 2 or more.
\<close>

theorem duplicate_counting_spec:
  assumes "map conversionAction_name (safeArray (conversion_actions data)) = map JString names"
  shows "findDuplicatePatterns (map toLowerCase names) =
           map (\<lambda>kw. pattern_text (keyword_count kw (map toLowerCase names)) kw)
             (filter (\<lambda>kw. keyword_count kw (map toLowerCase names) > 1) duplicate_keywords)
         \<and> (\<exists>cat. checkConversionTracking data = Inr cat \<and>
               result_of ''G-CT1'' (checks cat) =
                 Some (if length (findDuplicatePatterns (map toLowerCase names)) = 0 then ''PASS''
                       else if length (findDuplicatePatterns (map toLowerCase names)) = 1 then ''WARNING''
                       else ''FAIL''))"
proof -
  have d: "findDuplicatePatterns (map toLowerCase names) =
           map (\<lambda>kw. pattern_text (keyword_count kw (map toLowerCase names)) kw)
             (filter (\<lambda>kw. keyword_count kw (map toLowerCase names) > 1) duplicate_keywords)"
    by (simp add: findDuplicatePatterns_def patterns_loop_closed)
  have l: "lower_names (safeArray (conversion_actions data)) = Inr (map toLowerCase names)"
    using assms by (rule lower_names_strings)
  from checkConversionTracking_returns[OF l]
  obtain cat where cat: "checkConversionTracking data = Inr cat"
    "result_of ''G-CT1'' (checks cat) =
             Some (if length (findDuplicatePatterns (map toLowerCase names)) = 0 then ''PASS''
                   else if length (findDuplicatePatterns (map toLowerCase names)) \<le> 1 then ''WARNING''
                   else ''FAIL'')"
    by (elim exE conjE)
  have "result_of ''G-CT1'' (checks cat) =
          Some (if length (findDuplicatePatterns (map toLowerCase names)) = 0 then ''PASS''
                else if length (findDuplicatePatterns (map toLowerCase names)) = 1 then ''WARNING''
                else ''FAIL'')"
  proof -
    have "(length (findDuplicatePatterns (map toLowerCase names)) \<le> 1) =
          (length (findDuplicatePatterns (map toLowerCase names)) = 0 \<or>
           length (findDuplicatePatterns (map toLowerCase names)) = 1)" by linarith
    then show ?thesis unfolding cat(2) by (simp only: if_cancel split: if_splits) simp
  qed
  with cat(1) have "\<exists>cat. checkConversionTracking data = Inr cat \<and>
               result_of ''G-CT1'' (checks cat) =
                 Some (if length (findDuplicatePatterns (map toLowerCase names)) = 0 then ''PASS''
                       else if length (findDuplicatePatterns (map toLowerCase names)) = 1 then ''WARNING''
                       else ''FAIL'')"
    by (intro exI conjI)
  with d show ?thesis by (rule conjI)
qed

text \<open>
  The example of the specification: the names "Purchase - GA4", "Purchase - Shopify" and
  "Lead Form" give exactly one pattern, for the keyword purchase with count 2, and the
  result WARNING.
\<close>

theorem duplicate_counting_spec_witness:
  "map conversionAction_name (safeArray (conversion_actions purchase_dataset)) =
     map JString purchase_names
   \<and> findDuplicatePatterns (map toLowerCase purchase_names) = [''2x \"purchase\" actions'']
   \<and> map (\<lambda>kw. keyword_count kw (map toLowerCase purchase_names)) duplicate_keywords =
       [2, 0, 0, 0, 0, 1, 1, 0, 0]
   \<and> (\<exists>cat. checkConversionTracking purchase_dataset = Inr cat \<and>
         result_of ''G-CT1'' (checks cat) = Some ''WARNING'')"
proof -
  have n: "map conversionAction_name (safeArray (conversion_actions purchase_dataset)) =
     map JString purchase_names"
    by code_simp
  have p: "findDuplicatePatterns (map toLowerCase purchase_names) = [''2x \"purchase\" actions'']"
    by code_simp
  have k: "map (\<lambda>kw. keyword_count kw (map toLowerCase purchase_names)) duplicate_keywords =
       [2, 0, 0, 0, 0, 1, 1, 0, 0]"
    by code_simp
  have w: "\<exists>cat. checkConversionTracking purchase_dataset = Inr cat \<and>
         result_of ''G-CT1'' (checks cat) = Some ''WARNING''"
    using duplicate_counting_spec[OF n] unfolding p by simp
  show ?thesis by (intro conjI n p k w)
qed

section \<open>Verification of the evaluators\<close>

lemma checkKeywordsQS_ids:
  "map id' (checks (checkKeywordsQS data)) = [''G20-G25'', ''G-KW1'', ''G-KW2'']"
  by (simp add: checkKeywordsQS_def Let_def mk_check_def)

lemma checkKeywordsQS_absent:
  "keywords' data = None \<or> campaigns data = None \<Longrightarrow>
   map result (checks (checkKeywordsQS data)) = [''N/A'', ''N/A'', ''N/A'']"
  by (auto simp: checkKeywordsQS_def Let_def mk_check_def)

lemma lower_name_no_true:
  "v \<noteq> JBool True \<Longrightarrow> \<exists>n. lower_name v = Inr n"
proof (cases v)
  case JUndefined
  then show ?thesis by (simp add: lower_name_def js_or_def)
next
  case (JBool b)
  assume "v \<noteq> JBool True"
  then have "b = False" using JBool by simp
  then show ?thesis using JBool by (simp add: lower_name_def js_or_def)
next
  case (JString s)
  then show ?thesis by (simp add: lower_name_def js_or_def)
qed

lemma lower_names_no_true:
  "\<forall>r \<in> set rows. conversionAction_name r \<noteq> JBool True \<Longrightarrow> \<exists>ns. lower_names rows = Inr ns"
proof (induction rows)
  case Nil
  then show ?case by simp
next
  case (Cons r rows)
  then obtain ns where ns: "lower_names rows = Inr ns" by auto
  have "conversionAction_name r \<noteq> JBool True" using Cons.prems by simp
  then obtain n where "lower_name (conversionAction_name r) = Inr n"
    using lower_name_no_true by blast
  then show ?case using ns by simp
qed

lemma checkConversionTracking_ids:
  assumes "\<forall>r \<in> set (safeArray (conversion_actions data)). conversionAction_name r \<noteq> JBool True"
  shows "\<exists>cat. checkConversionTracking data = Inr cat \<and>
           map id' (checks cat) =
             [''G42'', ''G43'', ''G44'', ''G45'', ''G46'', ''G47'', ''G48'', ''G49'',
              ''G-CT1'', ''G-CT2'', ''G-CT3'']"
proof -
  obtain ns where "lower_names (safeArray (conversion_actions data)) = Inr ns"
    using lower_names_no_true[OF assms] by (elim exE)
  from checkConversionTracking_returns[OF this]
  obtain cat where "checkConversionTracking data = Inr cat"
    and "map id' (checks cat) =
             [''G42'', ''G43'', ''G44'', ''G45'', ''G46'', ''G47'', ''G48'', ''G49'',
              ''G-CT1'', ''G-CT2'', ''G-CT3'']"
    by (elim exE conjE)
  then show ?thesis by (intro exI conjI)
qed

text \<open>
  Claim C9 asks that no evaluator raises on any dataset. The conversion-tracking evaluator
  raises on a conversion action whose name the normalizer has turned into the boolean
  \<^verbatim>\<open>true\<close>: \<^verbatim>\<open>(name || '').toLowerCase()\<close> is then a method call on a boolean, and no
  check list is returned.
\<close>

theorem checkConversionTracking_raises:
  "checkConversionTracking true_name_dataset = Inl TypeError"
  by code_simp

end
